theory Spec2Isabelle
  imports Complex_Main
begin

section \<open>Host images\<close>

text \<open>
  The script \<^verbatim>\<open>3D_Nuclei_Segmentation_StarDist_TrackMate.py\<close> drives the image host
  through its objects: an image processor (one 2D plane), an image stack (an append-only
  sequence of labelled planes of one width and height) and an image (a stack with a
  channel, slice and frame count and a calibration). The host objects are modelled by
  the fields the script reads and writes.
\<close>

record calibration =
  pixelWidth :: real
  pixelHeight :: real
  pixelDepth :: real
  frameInterval :: real
  cal_unit :: string

record processor =
  ip_width :: nat
  ip_height :: nat
  ip_bitDepth :: nat
  ip_pixels :: "nat list"

record imagestack =
  stk_width :: nat
  stk_height :: nat
  stk_slices :: "(string \<times> processor) list"

record imageplus =
  im_title :: string
  im_stack :: imagestack
  im_nChannels :: nat
  im_nSlices :: nat
  im_nFrames :: nat
  im_currentSlice :: nat
  im_calibration :: calibration

definition default_calibration :: calibration where
  "default_calibration =
     \<lparr>pixelWidth = 1, pixelHeight = 1, pixelDepth = 1, frameInterval = 0,
      cal_unit = ''pixel''\<rparr>"

text \<open>\<^verbatim>\<open>ImageStack(width, height)\<close>, \<^verbatim>\<open>addSlice(label, ip)\<close>, \<^verbatim>\<open>getSize()\<close>.\<close>

definition ImageStack :: "nat \<Rightarrow> nat \<Rightarrow> imagestack" where
  "ImageStack w h = \<lparr>stk_width = w, stk_height = h, stk_slices = []\<rparr>"

definition addSlice :: "string \<Rightarrow> processor \<Rightarrow> imagestack \<Rightarrow> imagestack" where
  "addSlice lbl ip stk = stk\<lparr>stk_slices := stk_slices stk @ [(lbl, ip)]\<rparr>"

definition getSize :: "imagestack \<Rightarrow> nat" where
  "getSize stk = length (stk_slices stk)"

text \<open>
  \<^verbatim>\<open>setDimensions(c, z, t)\<close> relabels the axes of a stack whose size is \<open>c * z * t\<close>;
  \<^verbatim>\<open>setSlice(n)\<close> selects plane \<open>n\<close> (counted from 1) when the stack has one and
  \<^verbatim>\<open>getProcessor()\<close> returns the selected plane; \<^verbatim>\<open>duplicate()\<close> copies a plane.
\<close>

definition setDimensions :: "imageplus \<Rightarrow> nat \<Rightarrow> nat \<Rightarrow> nat \<Rightarrow> imageplus" where
  "setDimensions img c z t = img\<lparr>im_nChannels := c, im_nSlices := z, im_nFrames := t\<rparr>"

definition setSlice :: "imageplus \<Rightarrow> nat \<Rightarrow> imageplus" where
  "setSlice img n =
     (if 1 \<le> n \<and> n \<le> getSize (im_stack img) then img\<lparr>im_currentSlice := n\<rparr> else img)"

definition getProcessor :: "imageplus \<Rightarrow> processor" where
  "getProcessor img = snd (stk_slices (im_stack img) ! (im_currentSlice img - 1))"

definition duplicate :: "processor \<Rightarrow> processor" where
  "duplicate ip = ip"

text \<open>
  \<^verbatim>\<open>IJ.createImage(title, width, height, depth, bitDepth)\<close>: a new image of \<open>depth\<close>
  planes, every pixel zero.
\<close>

definition blank_processor :: "nat \<Rightarrow> nat \<Rightarrow> nat \<Rightarrow> processor" where
  "blank_processor w h bits =
     \<lparr>ip_width = w, ip_height = h, ip_bitDepth = bits, ip_pixels = replicate (w * h) 0\<rparr>"

definition createImage :: "string \<Rightarrow> nat \<Rightarrow> nat \<Rightarrow> nat \<Rightarrow> nat \<Rightarrow> imageplus" where
  "createImage ttl w h depth bits =
     \<lparr>im_title = ttl,
      im_stack = \<lparr>stk_width = w, stk_height = h,
                  stk_slices = replicate depth ([], blank_processor w h bits)\<rparr>,
      im_nChannels = 1, im_nSlices = depth, im_nFrames = 1, im_currentSlice = 1,
      im_calibration = default_calibration\<rparr>"

section \<open>Python string formatting\<close>

text \<open>\<^verbatim>\<open>"{}".format(n)\<close> for a non-negative integer: its decimal digits.\<close>

definition digit_char :: "nat \<Rightarrow> char" where
  "digit_char d = ''0123456789'' ! d"

function str_nat :: "nat \<Rightarrow> string" where
  "str_nat n = (if n < 10 then [digit_char n] else str_nat (n div 10) @ [digit_char (n mod 10)])"
  by pat_completeness auto
termination
  by (relation "measure id") auto

declare str_nat.simps [simp del]

text \<open>
  \<^verbatim>\<open>os.path.splitext(name)[0]\<close> for a name without a directory separator (what
  \<^verbatim>\<open>File.getName()\<close> returns): the name is cut at its last dot, unless every character
  before that dot is a dot too.
\<close>

fun rfind :: "char \<Rightarrow> string \<Rightarrow> nat option" where
  "rfind c [] = None"
| "rfind c (x # xs) =
     (case rfind c xs of
        Some i \<Rightarrow> Some (Suc i)
      | None \<Rightarrow> if x = c then Some 0 else None)"

definition splitext_root :: "string \<Rightarrow> string" where
  "splitext_root p =
     (case rfind (CHR ''.'') p of
        None \<Rightarrow> p
      | Some dotIndex \<Rightarrow>
          if list_ex (\<lambda>ch. ch \<noteq> CHR ''.'') (take dotIndex p) then take dotIndex p else p)"

section \<open>Host services\<close>

text \<open>
  Modelled from the spec: the image host's services, which the script calls and the
  repository does not contain. Section 6 of the specification lists them: the image I/O
  service opens files, queries dimensions, duplicates sub-ranges and saves; the
  channel-merge service combines N single-channel images into one multi-channel image;
  the reshaping of a flat stack into a hyperstack requires an exact slice count
  (Section 4.3). Planes of a hyperstack are stored channel first, then z, then frame.
  Saving a file and merging two or more channels succeed.
\<close>

datatype jfile = File (getParent: string) (getName: string)

definition getAbsolutePath :: "jfile \<Rightarrow> string" where
  "getAbsolutePath f = getParent f @ ''/'' @ getName f"

definition getWidth :: "imageplus \<Rightarrow> nat" where
  "getWidth img = stk_width (im_stack img)"

definition getHeight :: "imageplus \<Rightarrow> nat" where
  "getHeight img = stk_height (im_stack img)"

definition getStackIndex :: "imageplus \<Rightarrow> nat \<Rightarrow> nat \<Rightarrow> nat \<Rightarrow> nat" where
  "getStackIndex img c z t =
     (t - 1) * im_nSlices img * im_nChannels img + (z - 1) * im_nChannels img + c"

definition plane_at :: "imageplus \<Rightarrow> nat \<Rightarrow> nat \<Rightarrow> nat \<Rightarrow> string \<times> processor" where
  "plane_at img c z t = stk_slices (im_stack img) ! (getStackIndex img c z t - 1)"

definition Duplicator_run ::
  "imageplus \<Rightarrow> nat \<Rightarrow> nat \<Rightarrow> nat \<Rightarrow> nat \<Rightarrow> nat \<Rightarrow> nat \<Rightarrow> imageplus" where
  "Duplicator_run img firstC lastC firstZ lastZ firstT lastT =
     \<lparr>im_title = ''DUP_'' @ im_title img,
      im_stack =
        \<lparr>stk_width = getWidth img, stk_height = getHeight img,
         stk_slices =
           concat (map (\<lambda>t. concat (map (\<lambda>z. map (\<lambda>c. plane_at img c z t)
                                                   [firstC..<Suc lastC])
                                        [firstZ..<Suc lastZ]))
                       [firstT..<Suc lastT])\<rparr>,
      im_nChannels = Suc lastC - firstC,
      im_nSlices = Suc lastZ - firstZ,
      im_nFrames = Suc lastT - firstT,
      im_currentSlice = 1,
      im_calibration = im_calibration img\<rparr>"

definition ImagePlus :: "string \<Rightarrow> imagestack \<Rightarrow> imageplus" where
  "ImagePlus ttl stk =
     \<lparr>im_title = ttl, im_stack = stk, im_nChannels = 1, im_nSlices = getSize stk,
      im_nFrames = 1, im_currentSlice = 1, im_calibration = default_calibration\<rparr>"

text \<open>\<^verbatim>\<open>HyperStackConverter.toHyperStack\<close>: \<open>None\<close> is the exception it raises when the
  stack does not hold exactly \<open>c * z * t\<close> planes.\<close>

definition toHyperStack :: "imageplus \<Rightarrow> nat \<Rightarrow> nat \<Rightarrow> nat \<Rightarrow> imageplus option" where
  "toHyperStack img c z t =
     (if c * z * t \<noteq> getSize (im_stack img) then None else Some (setDimensions img c z t))"

definition setCalibration :: "imageplus \<Rightarrow> calibration \<Rightarrow> imageplus" where
  "setCalibration img cal = img\<lparr>im_calibration := cal\<rparr>"

definition setTitle :: "imageplus \<Rightarrow> string \<Rightarrow> imageplus" where
  "setTitle img ttl = img\<lparr>im_title := ttl\<rparr>"

text \<open>\<^verbatim>\<open>RGBStackMerge.mergeChannels\<close>: one channel per image, the planes interleaved
  channel first; \<open>None\<close> (a null result) for fewer than two images.\<close>

definition mergeChannels :: "imageplus list \<Rightarrow> imageplus option" where
  "mergeChannels images =
     (case images of
        first # _ # _ \<Rightarrow>
          Some \<lparr>im_title = ''Composite'',
                im_stack =
                  \<lparr>stk_width = getWidth first, stk_height = getHeight first,
                   stk_slices = concat (transpose (map (\<lambda>i. stk_slices (im_stack i)) images))\<rparr>,
                im_nChannels = length images,
                im_nSlices = im_nSlices first,
                im_nFrames = im_nFrames first,
                im_currentSlice = 1,
                im_calibration = im_calibration first\<rparr>
      | _ \<Rightarrow> None)"

text \<open>
  What the host returns to the script. Opening a file gives an image, \<^verbatim>\<open>None\<close>, or an
  exception. The detection and tracking pipeline of one timepoint (set-up,
  \<^verbatim>\<open>checkInput\<close>, \<^verbatim>\<open>process\<close>, the spot counts and \<^verbatim>\<open>createLabelImagePlus\<close>) ends in one
  of five ways: an exception, a failed input check, a failed processing step, a null
  label image, or a label image. An exception is raised before the first slice of the
  timepoint is appended. Both services are functions of their argument: the files do
  not change during a run and the pipeline is deterministic.
\<close>

datatype open_result = OpenRaises | OpenNone | Opened imageplus

datatype trackmate_result =
  Raised | CheckInputFailed | ProcessFailed | LabelNone | Label imageplus

record settings =
  set_imp :: imageplus
  TARGET_CHANNEL :: int
  SCORE_THRESHOLD :: real
  OVERLAP_THRESHOLD :: real
  IOU_CALCULATION :: string
  MIN_IOU :: real
  SCALE_FACTOR :: real

record host =
  openImage :: "string \<Rightarrow> open_result"
  trackmate :: "settings \<Rightarrow> trackmate_result"

section \<open>The script\<close>

text \<open>
  The parameters of a run. The three thresholds are only handed on to the pipeline, so
  their type does not matter; they are reals here. What the script prints is left out:
  it changes neither an image nor a file.
\<close>

record params =
  target_channel :: int
  prob_threshold :: real
  overlap_threshold :: real
  min_iou :: real
  append_to_original :: bool
  output_dir :: string

text \<open>
  The script's variables that outlive a loop iteration, and its effects on the host: the
  files saved and the images closed (by title), in order.
\<close>

record script_state =
  output_stack :: imagestack
  successful_timepoints :: nat
  saved :: "(jfile \<times> imageplus) list"
  closed :: "string list"

definition close :: "imageplus \<Rightarrow> script_state \<Rightarrow> script_state" where
  "close img st = st\<lparr>closed := closed st @ [im_title img]\<rparr>"

definition save :: "imageplus \<Rightarrow> jfile \<Rightarrow> script_state \<Rightarrow> script_state" where
  "save img f st = st\<lparr>saved := saved st @ [(f, img)]\<rparr>"

text \<open>Lines 117--119, 126--128, 147--149 and 171--173: \<^verbatim>\<open>for z in range(n_slices)\<close>.\<close>

fun add_empty_slices ::
  "string \<Rightarrow> nat \<Rightarrow> nat \<Rightarrow> nat \<Rightarrow> nat list \<Rightarrow> imagestack \<Rightarrow> imagestack" where
  "add_empty_slices suffix t width height [] stk = stk"
| "add_empty_slices suffix t width height (z # zs) stk =
     (let empty_ip = getProcessor (createImage ''Empty'' width height 1 16)
      in add_empty_slices suffix t width height zs
           (addSlice (''t'' @ str_nat t @ ''_z'' @ str_nat (z + 1) @ suffix) empty_ip stk))"

text \<open>Lines 157--160: \<^verbatim>\<open>for z in range(1, label_imp_t.getNSlices() + 1)\<close>.\<close>

fun add_label_slices :: "nat \<Rightarrow> imageplus \<Rightarrow> nat list \<Rightarrow> imagestack \<Rightarrow> imagestack" where
  "add_label_slices t label_imp_t [] stk = stk"
| "add_label_slices t label_imp_t (z # zs) stk =
     (let label_imp_t' = setSlice label_imp_t z;
          ip = duplicate (getProcessor label_imp_t')
      in add_label_slices t label_imp_t' zs
           (addSlice (''t'' @ str_nat t @ ''_z'' @ str_nat z) ip stk))"

text \<open>Lines 81--84: the sub-volume of one timepoint, its z axis relabelled as frames.\<close>

definition extract_timepoint :: "params \<Rightarrow> imageplus \<Rightarrow> nat \<Rightarrow> imageplus" where
  "extract_timepoint p imp t =
     (let n_slices = im_nSlices imp;
          imp_t = Duplicator_run imp (nat (target_channel p)) (nat (target_channel p))
                    1 n_slices t t
      in setDimensions imp_t 1 1 n_slices)"

text \<open>Lines 90--108: the settings handed to the detector and the tracker.\<close>

definition make_settings :: "params \<Rightarrow> imageplus \<Rightarrow> settings" where
  "make_settings p imp_t =
     \<lparr>set_imp = imp_t, TARGET_CHANNEL = 1, SCORE_THRESHOLD = prob_threshold p,
      OVERLAP_THRESHOLD = overlap_threshold p, IOU_CALCULATION = ''PRECISE'',
      MIN_IOU = min_iou p, SCALE_FACTOR = 1\<rparr>"

text \<open>Lines 153--154: the label image's frames relabelled as z-slices.\<close>

definition frames_to_slices :: "imageplus \<Rightarrow> imageplus" where
  "frames_to_slices label_imp_t =
     (let n_label_frames = im_nFrames label_imp_t
      in setDimensions label_imp_t 1 n_label_frames 1)"

text \<open>Lines 77--173: the body of the timepoint loop.\<close>

definition process_timepoint ::
  "host \<Rightarrow> params \<Rightarrow> imageplus \<Rightarrow> script_state \<Rightarrow> nat \<Rightarrow> script_state" where
  "process_timepoint h p imp st t =
     (let width = getWidth imp; height = getHeight imp; n_slices = im_nSlices imp;
          imp_t = extract_timepoint p imp t
      in case trackmate h (make_settings p imp_t) of
           CheckInputFailed \<Rightarrow>
             (close imp_t st)\<lparr>output_stack :=
                add_empty_slices ''_empty'' t width height [0..<n_slices] (output_stack st)\<rparr>
         | ProcessFailed \<Rightarrow>
             (close imp_t st)\<lparr>output_stack :=
                add_empty_slices ''_empty'' t width height [0..<n_slices] (output_stack st)\<rparr>
         | LabelNone \<Rightarrow>
             (close imp_t st)\<lparr>output_stack :=
                add_empty_slices ''_empty'' t width height [0..<n_slices] (output_stack st)\<rparr>
         | Label exported \<Rightarrow>
             (let label_imp_t = frames_to_slices exported;
                  st1 = st\<lparr>output_stack :=
                           add_label_slices t label_imp_t [1..<Suc (im_nSlices label_imp_t)]
                             (output_stack st)\<rparr>;
                  st2 = st1\<lparr>successful_timepoints := successful_timepoints st1 + 1\<rparr>
              in close imp_t (close label_imp_t st2))
         | Raised \<Rightarrow>
             st\<lparr>output_stack :=
                add_empty_slices ''_error'' t width height [0..<n_slices] (output_stack st)\<rparr>)"

text \<open>Line 76: \<^verbatim>\<open>for t in range(1, n_frames + 1)\<close>.\<close>

fun timepoint_loop ::
  "host \<Rightarrow> params \<Rightarrow> imageplus \<Rightarrow> nat list \<Rightarrow> script_state \<Rightarrow> script_state" where
  "timepoint_loop h p imp [] st = st"
| "timepoint_loop h p imp (t # ts) st = timepoint_loop h p imp ts (process_timepoint h p imp st t)"

text \<open>Lines 226--229: one duplicate per original channel, over all slices and frames.\<close>

definition duplicate_channels :: "imageplus \<Rightarrow> imageplus list" where
  "duplicate_channels imp =
     map (\<lambda>c. Duplicator_run imp c c 1 (im_nSlices imp) 1 (im_nFrames imp))
       [1..<Suc (im_nChannels imp)]"

fun close_all :: "imageplus list \<Rightarrow> script_state \<Rightarrow> script_state" where
  "close_all [] st = st"
| "close_all (ch_imp # rest) st = close_all rest (close ch_imp st)"

text \<open>
  Lines 198--256: the output of one file. An exception (a null merge result) leaves the
  \<^verbatim>\<open>try\<close> block of the file: nothing more is saved or closed.
\<close>

definition write_output ::
  "params \<Rightarrow> jfile \<Rightarrow> imageplus \<Rightarrow> imageplus \<Rightarrow> script_state \<Rightarrow> script_state" where
  "write_output p input_file imp label_imp st =
     (let cal = im_calibration imp;
          original_name = getName input_file;
          name_without_ext = splitext_root original_name
      in if append_to_original p then
           (if im_nChannels imp = 1 then
              (case mergeChannels [imp, label_imp] of
                 None \<Rightarrow> st
               | Some merged \<Rightarrow>
                   (let merged_imp = setCalibration
                                       (setTitle merged (name_without_ext @ ''_with_labels'')) cal;
                        output_file = File (output_dir p) (name_without_ext @ ''_with_labels.tif'')
                    in close imp (close label_imp (close merged_imp
                         (save merged_imp output_file st)))))
            else
              (let channels = duplicate_channels imp @ [label_imp]
               in case mergeChannels channels of
                    None \<Rightarrow> st
                  | Some merged \<Rightarrow>
                      (let merged_imp = setCalibration
                                          (setTitle merged (name_without_ext @ ''_with_labels'')) cal;
                           output_file = File (output_dir p)
                                           (name_without_ext @ ''_with_labels.tif'')
                       in close imp (close label_imp (close merged_imp
                            (close_all (butlast channels)
                               (save merged_imp output_file st)))))))
         else
           (let output_file = File (output_dir p) (name_without_ext @ ''_label_3D.tif'')
            in close imp (close label_imp (save label_imp output_file st))))"

text \<open>Lines 72--173: the fresh output stack and counter of a file, then its timepoints.\<close>

definition run_timepoints :: "host \<Rightarrow> params \<Rightarrow> imageplus \<Rightarrow> script_state \<Rightarrow> script_state" where
  "run_timepoints h p imp st =
     (let width = getWidth imp; height = getHeight imp; n_frames = im_nFrames imp;
          st1 = st\<lparr>output_stack := ImageStack width height, successful_timepoints := 0\<rparr>
      in timepoint_loop h p imp [1..<Suc n_frames] st1)"

text \<open>Lines 184--196: the label hyperstack; \<open>None\<close> when the reshaping raises.\<close>

definition create_label_hyperstack :: "imageplus \<Rightarrow> imagestack \<Rightarrow> imageplus option" where
  "create_label_hyperstack imp stk =
     (let n_slices = im_nSlices imp; n_frames = im_nFrames imp
      in case toHyperStack (ImagePlus ''Labels'' stk) 1 n_slices n_frames of
           None \<Rightarrow> None
         | Some label_imp \<Rightarrow>
             (let cal = im_calibration imp in Some (setCalibration label_imp cal)))"

text \<open>
  Lines 39--263: the body of the file loop. \<^verbatim>\<open>continue\<close> and the handler of the file's
  \<^verbatim>\<open>try\<close> block both go on with the next file, in the state reached so far.
\<close>

definition process_file :: "host \<Rightarrow> params \<Rightarrow> script_state \<Rightarrow> jfile \<Rightarrow> script_state" where
  "process_file h p st input_file =
     (case openImage h (getAbsolutePath input_file) of
        OpenRaises \<Rightarrow> st
      | OpenNone \<Rightarrow> st
      | Opened imp \<Rightarrow>
          (let n_channels = im_nChannels imp
           in if target_channel p < 1 \<or> target_channel p > int n_channels then close imp st
              else
                (let st2 = run_timepoints h p imp st
                 in if getSize (output_stack st2) = 0 then close imp st2
                    else
                      (case create_label_hyperstack imp (output_stack st2) of
                         None \<Rightarrow> st2
                       | Some label_imp \<Rightarrow> write_output p input_file imp label_imp st2))))"

text \<open>Line 38: \<^verbatim>\<open>for file_idx, input_file in enumerate(input_files)\<close>.\<close>

fun file_loop :: "host \<Rightarrow> params \<Rightarrow> jfile list \<Rightarrow> script_state \<Rightarrow> script_state" where
  "file_loop h p [] st = st"
| "file_loop h p (input_file # rest) st = file_loop h p rest (process_file h p st input_file)"

text \<open>The state before the first file: no stack, nothing saved, nothing closed.\<close>

definition initial_state :: script_state where
  "initial_state =
     \<lparr>output_stack = ImageStack 0 0, successful_timepoints = 0, saved = [], closed = []\<rparr>"

definition run_script :: "host \<Rightarrow> params \<Rightarrow> jfile list \<Rightarrow> script_state" where
  "run_script h p input_files = file_loop h p input_files initial_state"

text \<open>A failed timepoint: every result of the pipeline but a label image.\<close>

definition tp_failed :: "trackmate_result \<Rightarrow> bool" where
  "tp_failed r = (case r of Label _ \<Rightarrow> False | _ \<Rightarrow> True)"

definition tp_result :: "host \<Rightarrow> params \<Rightarrow> imageplus \<Rightarrow> nat \<Rightarrow> trackmate_result" where
  "tp_result h p imp t = trackmate h (make_settings p (extract_timepoint p imp t))"

text \<open>The number of slices a timepoint adds, by its result.\<close>

definition tp_slices :: "imageplus \<Rightarrow> trackmate_result \<Rightarrow> nat" where
  "tp_slices imp r = (case r of Label exported \<Rightarrow> im_nFrames exported | _ \<Rightarrow> im_nSlices imp)"

section \<open>Example inputs\<close>

definition ex_plane :: "string \<Rightarrow> nat \<Rightarrow> nat \<Rightarrow> string \<times> processor" where
  "ex_plane lbl bits v =
     (lbl, \<lparr>ip_width = 1, ip_height = 1, ip_bitDepth = bits, ip_pixels = [v]\<rparr>)"

definition ex_cal :: calibration where
  "ex_cal = \<lparr>pixelWidth = 1 / 4, pixelHeight = 1 / 4, pixelDepth = 2, frameInterval = 30,
             cal_unit = ''um''\<rparr>"

text \<open>Two channels, two z-slices, one frame.\<close>

definition ex_imp2 :: imageplus where
  "ex_imp2 =
     \<lparr>im_title = ''a.tif'',
      im_stack = \<lparr>stk_width = 1, stk_height = 1,
                  stk_slices = [ex_plane ''c1z1'' 8 11, ex_plane ''c2z1'' 8 21,
                                ex_plane ''c1z2'' 8 12, ex_plane ''c2z2'' 8 22]\<rparr>,
      im_nChannels = 2, im_nSlices = 2, im_nFrames = 1, im_currentSlice = 1,
      im_calibration = ex_cal\<rparr>"

text \<open>One channel, two z-slices, one frame.\<close>

definition ex_imp1 :: imageplus where
  "ex_imp1 =
     \<lparr>im_title = ''b.tif'',
      im_stack = \<lparr>stk_width = 1, stk_height = 1,
                  stk_slices = [ex_plane ''z1'' 8 11, ex_plane ''z2'' 8 12]\<rparr>,
      im_nChannels = 1, im_nSlices = 2, im_nFrames = 1, im_currentSlice = 1,
      im_calibration = ex_cal\<rparr>"

text \<open>A label image of \<open>k\<close> frames, as the exporter returns it.\<close>

definition ex_label :: "nat \<Rightarrow> imageplus" where
  "ex_label k =
     \<lparr>im_title = ''LblImg'',
      im_stack = \<lparr>stk_width = 1, stk_height = 1,
                  stk_slices = replicate k (ex_plane [] 16 7)\<rparr>,
      im_nChannels = 1, im_nSlices = 1, im_nFrames = k, im_currentSlice = 1,
      im_calibration = default_calibration\<rparr>"

text \<open>A host with two files, whose pipeline ends every timepoint with the result \<open>r\<close>.\<close>

definition ex_host :: "trackmate_result \<Rightarrow> host" where
  "ex_host r =
     \<lparr>openImage = (\<lambda>path. if path = ''/data/a.tif'' then Opened ex_imp2
                           else if path = ''/data/b.tif'' then Opened ex_imp1
                           else OpenNone),
      trackmate = (\<lambda>s. r)\<rparr>"

definition ex_params :: "int \<Rightarrow> bool \<Rightarrow> params" where
  "ex_params ch app =
     \<lparr>target_channel = ch, prob_threshold = 1 / 2, overlap_threshold = 3 / 10,
      min_iou = 1 / 10, append_to_original = app, output_dir = ''/out''\<rparr>"

text \<open>One channel, two z-slices, two frames.\<close>

definition ex_imp3 :: imageplus where
  "ex_imp3 =
     \<lparr>im_title = ''c.tif'',
      im_stack = \<lparr>stk_width = 1, stk_height = 1,
                  stk_slices = [ex_plane ''z1t1'' 8 11, ex_plane ''z2t1'' 8 12,
                                ex_plane ''z1t2'' 8 13, ex_plane ''z2t2'' 8 14]\<rparr>,
      im_nChannels = 1, im_nSlices = 2, im_nFrames = 2, im_currentSlice = 1,
      im_calibration = ex_cal\<rparr>"

text \<open>
  A host with one file of two frames: the pipeline returns a label image of \<open>k\<close> frames
  for the first frame and fails on every other sub-volume.
\<close>

definition ex_host_mixed :: "nat \<Rightarrow> host" where
  "ex_host_mixed k =
     \<lparr>openImage = (\<lambda>path. if path = ''/data/c.tif'' then Opened ex_imp3 else OpenNone),
      trackmate = (\<lambda>s. if map fst (take 1 (stk_slices (im_stack (set_imp s)))) = [''z1t1'']
                        then Label (ex_label k) else ProcessFailed)\<rparr>"


section \<open>The slices a timepoint adds\<close>

lemma empty_ip_eq: "getProcessor (createImage ttl w h (Suc 0) bits) = blank_processor w h bits"
  by (simp add: getProcessor_def createImage_def)

lemma add_empty_slices_eq:
  "add_empty_slices sfx t w h zs stk =
     stk\<lparr>stk_slices := stk_slices stk @
        map (\<lambda>z. (''t'' @ str_nat t @ ''_z'' @ str_nat (z + 1) @ sfx, blank_processor w h 16)) zs\<rparr>"
  by (induction zs arbitrary: stk) (simp_all add: empty_ip_eq addSlice_def)

lemma add_label_slices_slices:
  "\<exists>new. stk_slices (add_label_slices t lbl zs stk) = stk_slices stk @ new \<and> length new = length zs"
proof (induction zs arbitrary: lbl stk)
  case Nil
  then show ?case by simp
next
  case (Cons z zs)
  obtain new where n: "stk_slices (add_label_slices t (setSlice lbl z) zs
        (addSlice (''t'' @ str_nat t @ ''_z'' @ str_nat z) (duplicate (getProcessor (setSlice lbl z))) stk))
      = stk_slices (addSlice (''t'' @ str_nat t @ ''_z'' @ str_nat z) (duplicate (getProcessor (setSlice lbl z))) stk) @ new"
     and l: "length new = length zs"
    using Cons.IH by blast
  show ?case
    using n l by (simp add: Let_def addSlice_def)
qed

lemma add_label_slices_size:
  "getSize (add_label_slices t lbl zs stk) = getSize stk + length zs"
  using add_label_slices_slices [of t lbl zs stk] by (auto simp: getSize_def)

lemma add_empty_slices_size:
  "getSize (add_empty_slices sfx t w h zs stk) = getSize stk + length zs"
  by (simp add: add_empty_slices_eq getSize_def)

lemma process_timepoint_failed:
  assumes "tp_failed (tp_result h p imp t)"
  shows "output_stack (process_timepoint h p imp st t) =
           add_empty_slices (if tp_result h p imp t = Raised then ''_error'' else ''_empty'') t
             (getWidth imp) (getHeight imp) [0..<im_nSlices imp] (output_stack st)"
  using assms
  by (cases "tp_result h p imp t")
     (simp_all add: process_timepoint_def tp_result_def tp_failed_def Let_def close_def)

lemma process_timepoint_size:
  "getSize (output_stack (process_timepoint h p imp st t)) =
     getSize (output_stack st) + tp_slices imp (tp_result h p imp t)"
  by (cases "tp_result h p imp t")
     (simp_all add: process_timepoint_def tp_result_def tp_slices_def Let_def close_def
        add_empty_slices_size add_label_slices_size frames_to_slices_def setDimensions_def
        del: upt_Suc)

lemma timepoint_loop_size:
  "getSize (output_stack (timepoint_loop h p imp ts st)) =
     getSize (output_stack st) + (\<Sum>t\<leftarrow>ts. tp_slices imp (tp_result h p imp t))"
  by (induction ts arbitrary: st) (simp_all add: process_timepoint_size)

lemma run_timepoints_size:
  "getSize (output_stack (run_timepoints h p imp st)) =
     (\<Sum>t\<leftarrow>[1..<Suc (im_nFrames imp)]. tp_slices imp (tp_result h p imp t))"
  by (simp add: run_timepoints_def Let_def timepoint_loop_size del: upt_Suc)
     (simp add: getSize_def ImageStack_def)

lemma str_nat_digit: "n < 10 \<Longrightarrow> str_nat n = [digit_char n]"
  by (simp add: str_nat.simps)

lemma list2_eq: "length xs = 2 \<Longrightarrow> xs = [xs ! 0, xs ! 1]"
  by (cases xs; cases "tl xs") auto

section \<open>Failed timepoints\<close>

text \<open>
  C2: a timepoint whose pipeline ends without a label image (a failed input check, a
  failed processing step, a null label image or an exception) appends exactly
  \<open>n_slices\<close> slices to the output stack. Slice \<open>z\<close> of them is zero-valued, 16-bit, of the
  source image's width and height, and its label names the timepoint and the z index
  \<open>z + 1\<close>.
\<close>

theorem failed_timepoint_blank_slices:
  assumes "tp_failed (tp_result h p imp t)"
  shows "\<exists>new. stk_slices (output_stack (process_timepoint h p imp st t)) =
                 stk_slices (output_stack st) @ new \<and>
               length new = im_nSlices imp \<and>
               (\<forall>z < im_nSlices imp.
                  new ! z =
                    (''t'' @ str_nat t @ ''_z'' @ str_nat (z + 1) @
                       (if tp_result h p imp t = Raised then ''_error'' else ''_empty''),
                     \<lparr>ip_width = getWidth imp, ip_height = getHeight imp, ip_bitDepth = 16,
                      ip_pixels = replicate (getWidth imp * getHeight imp) 0\<rparr>))"
  by (simp add: process_timepoint_failed [OF assms] add_empty_slices_eq blank_processor_def
        del: upt_Suc)

theorem failed_timepoint_blank_slices_witness:
  "tp_failed (tp_result (ex_host ProcessFailed) (ex_params 1 False) ex_imp2 1) \<and>
   stk_slices (output_stack
      (process_timepoint (ex_host ProcessFailed) (ex_params 1 False) ex_imp2 initial_state 1)) =
     [(''t1_z1_empty'', \<lparr>ip_width = 1, ip_height = 1, ip_bitDepth = 16, ip_pixels = [0]\<rparr>),
      (''t1_z2_empty'', \<lparr>ip_width = 1, ip_height = 1, ip_bitDepth = 16, ip_pixels = [0]\<rparr>)]"
proof -
  let ?h = "ex_host ProcessFailed" and ?p = "ex_params 1 False"
  have r: "tp_result ?h ?p ex_imp2 1 = ProcessFailed"
    by (simp add: tp_result_def ex_host_def)
  have f: "tp_failed (tp_result ?h ?p ex_imp2 1)"
    unfolding r by (simp add: tp_failed_def)
  have dims: "im_nSlices ex_imp2 = 2" "getWidth ex_imp2 = 1" "getHeight ex_imp2 = 1"
    by (simp_all add: ex_imp2_def getWidth_def getHeight_def)
  obtain new where
    a: "stk_slices (output_stack (process_timepoint ?h ?p ex_imp2 initial_state 1)) =
          stk_slices (output_stack initial_state) @ new"
    and l: "length new = 2"
    and z: "\<forall>z<2. new ! z =
              (''t'' @ str_nat 1 @ ''_z'' @ str_nat (z + 1) @ ''_empty'',
               \<lparr>ip_width = 1, ip_height = 1, ip_bitDepth = 16, ip_pixels = replicate (1 * 1) 0\<rparr>)"
    using failed_timepoint_blank_slices [OF f, of initial_state] unfolding r dims by auto
  have n0: "new ! 0 = (''t1_z1_empty'',
              \<lparr>ip_width = 1, ip_height = 1, ip_bitDepth = 16, ip_pixels = [0]\<rparr>)"
    using z by (simp add: str_nat_digit digit_char_def)
  have n1: "new ! 1 = (''t1_z2_empty'',
              \<lparr>ip_width = 1, ip_height = 1, ip_bitDepth = 16, ip_pixels = [0]\<rparr>)"
    using z by (simp add: str_nat_digit digit_char_def)
  have "new = [new ! 0, new ! 1]"
    using l by (rule list2_eq)
  then have "stk_slices (output_stack (process_timepoint ?h ?p ex_imp2 initial_state 1)) =
     [(''t1_z1_empty'', \<lparr>ip_width = 1, ip_height = 1, ip_bitDepth = 16, ip_pixels = [0]\<rparr>),
      (''t1_z2_empty'', \<lparr>ip_width = 1, ip_height = 1, ip_bitDepth = 16, ip_pixels = [0]\<rparr>)]"
    using a n0 n1 by (simp add: initial_state_def ImageStack_def)
  then show ?thesis using f by simp
qed

section \<open>Successful timepoints\<close>



lemma sum_list_const: "(\<And>x. x \<in> set xs \<Longrightarrow> f x = c) \<Longrightarrow> (\<Sum>x\<leftarrow>xs. f x) = length xs * c"
  by (induction xs) simp_all

section \<open>What the timepoints leave alone\<close>

lemma process_timepoint_saved: "saved (process_timepoint h p imp st t) = saved st"
  by (cases "trackmate h (make_settings p (extract_timepoint p imp t))")
     (simp_all add: process_timepoint_def Let_def close_def)

lemma timepoint_loop_saved: "saved (timepoint_loop h p imp ts st) = saved st"
  by (induction ts arbitrary: st) (simp_all add: process_timepoint_saved)

lemma run_timepoints_saved: "saved (run_timepoints h p imp st) = saved st"
  by (simp add: run_timepoints_def Let_def timepoint_loop_saved del: upt_Suc)

lemma process_timepoint_stack_cong:
  "output_stack st = output_stack st' \<Longrightarrow>
   output_stack (process_timepoint h p imp st t) = output_stack (process_timepoint h p imp st' t)"
  by (cases "trackmate h (make_settings p (extract_timepoint p imp t))")
     (simp_all add: process_timepoint_def Let_def close_def)

lemma timepoint_loop_stack_cong:
  "output_stack st = output_stack st' \<Longrightarrow>
   output_stack (timepoint_loop h p imp ts st) = output_stack (timepoint_loop h p imp ts st')"
proof (induction ts arbitrary: st st')
  case Nil
  then show ?case by simp
next
  case (Cons t ts)
  have "output_stack (process_timepoint h p imp st t) =
        output_stack (process_timepoint h p imp st' t)"
    using Cons.prems by (rule process_timepoint_stack_cong)
  then show ?case
    unfolding timepoint_loop.simps by (rule Cons.IH)
qed

lemma run_timepoints_stack_indep:
  "output_stack (run_timepoints h p imp st) = output_stack (run_timepoints h p imp st')"
  unfolding run_timepoints_def Let_def
  by (rule timepoint_loop_stack_cong) simp

section \<open>The label hyperstack\<close>

lemma create_label_hyperstack_eq:
  "create_label_hyperstack imp stk =
     (if im_nSlices imp * im_nFrames imp = getSize stk
      then Some \<lparr>im_title = ''Labels'', im_stack = stk, im_nChannels = 1,
                  im_nSlices = im_nSlices imp, im_nFrames = im_nFrames imp,
                  im_currentSlice = 1, im_calibration = im_calibration imp\<rparr>
      else None)"
  by (simp add: create_label_hyperstack_def toHyperStack_def ImagePlus_def setDimensions_def
        setCalibration_def Let_def)

section \<open>The output of a file\<close>

lemma close_saved: "saved (close img st) = saved st"
  by (simp add: close_def)

lemma close_all_saved: "saved (close_all imgs st) = saved st"
  by (induction imgs arbitrary: st) (simp_all add: close_saved)

lemma mergeChannels_two:
  "mergeChannels (a # b # rest) =
     Some \<lparr>im_title = ''Composite'',
           im_stack =
             \<lparr>stk_width = getWidth a, stk_height = getHeight a,
              stk_slices = concat (transpose (map (\<lambda>i. stk_slices (im_stack i)) (a # b # rest)))\<rparr>,
           im_nChannels = Suc (Suc (length rest)),
           im_nSlices = im_nSlices a,
           im_nFrames = im_nFrames a,
           im_currentSlice = 1,
           im_calibration = im_calibration a\<rparr>"
  by (simp add: mergeChannels_def)

lemma duplicate_channels_length: "length (duplicate_channels imp) = im_nChannels imp"
  by (simp add: duplicate_channels_def del: upt_Suc)

lemma duplicate_channels_two:
  assumes "2 \<le> im_nChannels imp"
  shows "\<exists>rest. duplicate_channels imp =
           Duplicator_run imp 1 1 1 (im_nSlices imp) 1 (im_nFrames imp) #
           Duplicator_run imp 2 2 1 (im_nSlices imp) 1 (im_nFrames imp) # rest \<and>
           length rest = im_nChannels imp - 2"
proof -
  let ?n = "im_nChannels imp"
  have a: "[1..<Suc ?n] = 1 # [Suc 1..<Suc ?n]"
    using assms by (intro upt_conv_Cons) simp
  have b: "[Suc 1..<Suc ?n] = Suc 1 # [Suc (Suc 1)..<Suc ?n]"
    using assms by (intro upt_conv_Cons) simp
  have c: "Suc 1 = 2"
    by simp
  have "[1..<Suc ?n] = 1 # 2 # [Suc 2..<Suc ?n]"
    using a b unfolding c by simp
  then have "duplicate_channels imp =
           Duplicator_run imp 1 1 1 (im_nSlices imp) 1 (im_nFrames imp) #
           Duplicator_run imp 2 2 1 (im_nSlices imp) 1 (im_nFrames imp) #
           map (\<lambda>c. Duplicator_run imp c c 1 (im_nSlices imp) 1 (im_nFrames imp)) [Suc 2..<Suc ?n]"
    unfolding duplicate_channels_def by (simp only: list.map)
  moreover have "length (map (\<lambda>c. Duplicator_run imp c c 1 (im_nSlices imp) 1 (im_nFrames imp))
                    [Suc 2..<Suc ?n]) = ?n - 2"
    by (simp del: upt_Suc)
  ultimately show ?thesis
    by blast
qed


lemma write_output_label_only:
  assumes "\<not> append_to_original p"
  shows "write_output p f imp label_imp st =
           close imp (close label_imp
             (save label_imp (File (output_dir p) (splitext_root (getName f) @ ''_label_3D.tif'')) st))"
  using assms by (simp add: write_output_def Let_def)

lemma write_output_single:
  assumes "append_to_original p" and "im_nChannels imp = 1"
  shows "\<exists>merged. mergeChannels [imp, label_imp] = Some merged \<and>
           im_nChannels merged = 2 \<and> im_nSlices merged = im_nSlices imp \<and>
           im_nFrames merged = im_nFrames imp \<and>
           write_output p f imp label_imp st =
             close imp (close label_imp
               (close (setCalibration (setTitle merged (splitext_root (getName f) @ ''_with_labels''))
                         (im_calibration imp))
                  (save (setCalibration (setTitle merged (splitext_root (getName f) @ ''_with_labels''))
                           (im_calibration imp))
                     (File (output_dir p) (splitext_root (getName f) @ ''_with_labels.tif'')) st)))"
  using assms by (simp add: write_output_def Let_def mergeChannels_two)

lemma Duplicator_run_dims:
  "im_nSlices (Duplicator_run img c1 c2 z1 z2 t1 t2) = Suc z2 - z1"
  "im_nFrames (Duplicator_run img c1 c2 z1 z2 t1 t2) = Suc t2 - t1"
  "im_nChannels (Duplicator_run img c1 c2 z1 z2 t1 t2) = Suc c2 - c1"
  "im_calibration (Duplicator_run img c1 c2 z1 z2 t1 t2) = im_calibration img"
  by (simp_all add: Duplicator_run_def)

lemma write_output_multi:
  assumes "append_to_original p" and "2 \<le> im_nChannels imp"
  shows "\<exists>merged. mergeChannels (duplicate_channels imp @ [label_imp]) = Some merged \<and>
           im_nChannels merged = im_nChannels imp + 1 \<and> im_nSlices merged = im_nSlices imp \<and>
           im_nFrames merged = im_nFrames imp \<and>
           write_output p f imp label_imp st =
             close imp (close label_imp
               (close (setCalibration (setTitle merged (splitext_root (getName f) @ ''_with_labels''))
                         (im_calibration imp))
                  (close_all (duplicate_channels imp)
                     (save (setCalibration (setTitle merged (splitext_root (getName f) @ ''_with_labels''))
                              (im_calibration imp))
                        (File (output_dir p) (splitext_root (getName f) @ ''_with_labels.tif'')) st))))"
proof -
  obtain rest where d: "duplicate_channels imp =
           Duplicator_run imp 1 1 1 (im_nSlices imp) 1 (im_nFrames imp) #
           Duplicator_run imp 2 2 1 (im_nSlices imp) 1 (im_nFrames imp) # rest"
    and l: "length rest = im_nChannels imp - 2"
    using duplicate_channels_two [OF assms(2)] by blast
  let ?a = "Duplicator_run imp 1 1 1 (im_nSlices imp) 1 (im_nFrames imp)"
  let ?b = "Duplicator_run imp 2 2 1 (im_nSlices imp) 1 (im_nFrames imp)"
  obtain merged where m: "mergeChannels (?a # ?b # rest @ [label_imp]) = Some merged"
    and mc: "im_nChannels merged = Suc (Suc (length (rest @ [label_imp])))"
    and ms: "im_nSlices merged = im_nSlices ?a"
    and mf: "im_nFrames merged = im_nFrames ?a"
    by (simp add: mergeChannels_two)
  have m': "mergeChannels (duplicate_channels imp @ [label_imp]) = Some merged"
    using m by (simp add: d)
  have c: "im_nChannels merged = im_nChannels imp + 1"
    using mc l assms(2) by simp
  have s: "im_nSlices merged = im_nSlices imp" "im_nFrames merged = im_nFrames imp"
    using ms mf by (simp_all add: Duplicator_run_dims)
  have n1: "im_nChannels imp \<noteq> 1"
    using assms(2) by simp
  have "write_output p f imp label_imp st =
             close imp (close label_imp
               (close (setCalibration (setTitle merged (splitext_root (getName f) @ ''_with_labels''))
                         (im_calibration imp))
                  (close_all (duplicate_channels imp)
                     (save (setCalibration (setTitle merged (splitext_root (getName f) @ ''_with_labels''))
                              (im_calibration imp))
                        (File (output_dir p) (splitext_root (getName f) @ ''_with_labels.tif'')) st))))"
    unfolding write_output_def Let_def using assms(1) n1 by (simp add: m')
  then show ?thesis
    using m' c s by blast
qed

lemma save_saved: "saved (save img f st) = saved st @ [(f, img)]"
  by (simp add: save_def)

lemma write_output_saved:
  assumes "1 \<le> im_nChannels imp"
  shows "\<exists>img. saved (write_output p f imp label_imp st) =
           saved st @ [(File (output_dir p) (splitext_root (getName f) @
              (if append_to_original p then ''_with_labels.tif'' else ''_label_3D.tif'')), img)] \<and>
           im_calibration img =
             (if append_to_original p then im_calibration imp else im_calibration label_imp) \<and>
           im_nChannels img =
             (if append_to_original p then im_nChannels imp + 1 else im_nChannels label_imp) \<and>
           im_nSlices img =
             (if append_to_original p then im_nSlices imp else im_nSlices label_imp) \<and>
           im_nFrames img =
             (if append_to_original p then im_nFrames imp else im_nFrames label_imp)"
proof (cases "append_to_original p")
  case False
  then show ?thesis
    by (simp add: write_output_label_only close_saved save_saved)
next
  case True
  show ?thesis
  proof (cases "im_nChannels imp = 1")
    case one: True
    obtain merged where "im_nChannels merged = 2" "im_nSlices merged = im_nSlices imp"
      "im_nFrames merged = im_nFrames imp"
      "write_output p f imp label_imp st =
             close imp (close label_imp
               (close (setCalibration (setTitle merged (splitext_root (getName f) @ ''_with_labels''))
                         (im_calibration imp))
                  (save (setCalibration (setTitle merged (splitext_root (getName f) @ ''_with_labels''))
                           (im_calibration imp))
                     (File (output_dir p) (splitext_root (getName f) @ ''_with_labels.tif'')) st)))"
      using write_output_single [OF True one] by blast
    then show ?thesis
      using True one by (simp add: close_saved save_saved setCalibration_def setTitle_def)
  next
    case False
    with assms have two: "2 \<le> im_nChannels imp" by simp
    obtain merged where "im_nChannels merged = im_nChannels imp + 1"
      "im_nSlices merged = im_nSlices imp" "im_nFrames merged = im_nFrames imp"
      "write_output p f imp label_imp st =
             close imp (close label_imp
               (close (setCalibration (setTitle merged (splitext_root (getName f) @ ''_with_labels''))
                         (im_calibration imp))
                  (close_all (duplicate_channels imp)
                     (save (setCalibration (setTitle merged (splitext_root (getName f) @ ''_with_labels''))
                              (im_calibration imp))
                        (File (output_dir p) (splitext_root (getName f) @ ''_with_labels.tif'')) st))))"
      using write_output_multi [OF True two] by blast
    then show ?thesis
      using True by (simp add: close_saved close_all_saved save_saved setCalibration_def setTitle_def)
  qed
qed

section \<open>The examples, evaluated\<close>

lemma ex_mixed_result_1:
  "tp_result (ex_host_mixed k) (ex_params 1 app) ex_imp3 (Suc 0) = Label (ex_label k)"
  by (simp add: tp_result_def ex_host_mixed_def make_settings_def extract_timepoint_def
        Duplicator_run_def setDimensions_def plane_at_def getStackIndex_def ex_imp3_def
        ex_plane_def ex_params_def Let_def upt_rec)

lemma ex_mixed_result_2:
  "tp_result (ex_host_mixed k) (ex_params 1 app) ex_imp3 2 = ProcessFailed"
  by (simp add: tp_result_def ex_host_mixed_def make_settings_def extract_timepoint_def
        Duplicator_run_def setDimensions_def plane_at_def getStackIndex_def ex_imp3_def
        ex_plane_def ex_params_def Let_def upt_rec)

lemma ex_imp3_dims:
  "im_nChannels ex_imp3 = 1" "im_nSlices ex_imp3 = 2" "im_nFrames ex_imp3 = 2"
  "getWidth ex_imp3 = 1" "getHeight ex_imp3 = 1" "im_calibration ex_imp3 = ex_cal"
  by (simp_all add: ex_imp3_def getWidth_def getHeight_def)

lemma ex_label_frames: "im_nFrames (ex_label k) = k"
  by (simp add: ex_label_def)

lemma upt_1_3: "[1..<Suc 2] = [Suc 0, 2]"
  by (simp add: upt_rec)

lemma ex_mixed_size:
  "getSize (output_stack (run_timepoints (ex_host_mixed k) (ex_params 1 app) ex_imp3 st)) = k + 2"
  unfolding run_timepoints_size ex_imp3_dims upt_1_3
  by (simp add: ex_mixed_result_1 ex_mixed_result_2 tp_slices_def ex_label_frames ex_imp3_dims)

section \<open>The size of the accumulated stack\<close>

lemma run_timepoints_size_uniform:
  assumes "\<forall>t\<in>{1..im_nFrames imp}. \<forall>exported.
             tp_result h p imp t = Label exported \<longrightarrow> im_nFrames exported = im_nSlices imp"
  shows "getSize (output_stack (run_timepoints h p imp st)) = im_nFrames imp * im_nSlices imp"
proof -
  have "tp_slices imp (tp_result h p imp t) = im_nSlices imp"
    if "t \<in> set [1..<Suc (im_nFrames imp)]" for t
  proof -
    from that have tin: "t \<in> {1..im_nFrames imp}" by auto
    show ?thesis
    proof (cases "tp_result h p imp t")
      case (Label exported)
      with assms tin have "im_nFrames exported = im_nSlices imp" by blast
      then show ?thesis by (simp add: Label tp_slices_def)
    qed (simp_all add: tp_slices_def)
  qed
  then have "(\<Sum>t\<leftarrow>[1..<Suc (im_nFrames imp)]. tp_slices imp (tp_result h p imp t)) =
               length [1..<Suc (im_nFrames imp)] * im_nSlices imp"
    by (rule sum_list_const)
  then show ?thesis
    by (simp add: run_timepoints_size del: upt_Suc)
qed




section \<open>The file step\<close>

lemma process_file_opened:
  assumes "openImage h (getAbsolutePath f) = Opened imp"
    and "1 \<le> target_channel p" and "target_channel p \<le> int (im_nChannels imp)"
  shows "process_file h p st f =
           (if getSize (output_stack (run_timepoints h p imp st)) = 0
            then close imp (run_timepoints h p imp st)
            else case create_label_hyperstack imp (output_stack (run_timepoints h p imp st)) of
                   None \<Rightarrow> run_timepoints h p imp st
                 | Some label_imp \<Rightarrow>
                     write_output p f imp label_imp (run_timepoints h p imp st))"
  using assms by (simp add: process_file_def Let_def)

lemma process_file_invalid:
  assumes "openImage h (getAbsolutePath f) = Opened imp"
    and "target_channel p < 1 \<or> target_channel p > int (im_nChannels imp)"
  shows "process_file h p st f = close imp st"
  using assms by (auto simp: process_file_def Let_def)

lemma process_file_not_opened:
  assumes "openImage h (getAbsolutePath f) = OpenNone \<or> openImage h (getAbsolutePath f) = OpenRaises"
  shows "process_file h p st f = st"
  using assms by (auto simp: process_file_def)

text \<open>A validated file is written exactly when its stack has the size the reshaping needs.\<close>

lemma process_file_saved:
  assumes "openImage h (getAbsolutePath f) = Opened imp"
    and "1 \<le> target_channel p" and "target_channel p \<le> int (im_nChannels imp)"
  shows "saved (process_file h p st f) =
           (if getSize (output_stack (run_timepoints h p imp st)) \<noteq> 0 \<and>
               im_nSlices imp * im_nFrames imp = getSize (output_stack (run_timepoints h p imp st))
            then saved (write_output p f imp
                   \<lparr>im_title = ''Labels'', im_stack = output_stack (run_timepoints h p imp st),
                    im_nChannels = 1, im_nSlices = im_nSlices imp, im_nFrames = im_nFrames imp,
                    im_currentSlice = 1, im_calibration = im_calibration imp\<rparr>
                   (run_timepoints h p imp st))
            else saved st)"
  unfolding process_file_opened [OF assms] create_label_hyperstack_eq
  by (simp add: close_saved run_timepoints_saved)

lemma process_file_saved_cases:
  assumes "openImage h (getAbsolutePath f) = Opened imp"
  shows "saved (process_file h p st f) = saved st \<or>
         (1 \<le> target_channel p \<and> target_channel p \<le> int (im_nChannels imp) \<and>
          getSize (output_stack (run_timepoints h p imp st)) \<noteq> 0 \<and>
          im_nSlices imp * im_nFrames imp = getSize (output_stack (run_timepoints h p imp st)) \<and>
          saved (process_file h p st f) =
            saved (write_output p f imp
                   \<lparr>im_title = ''Labels'', im_stack = output_stack (run_timepoints h p imp st),
                    im_nChannels = 1, im_nSlices = im_nSlices imp, im_nFrames = im_nFrames imp,
                    im_currentSlice = 1, im_calibration = im_calibration imp\<rparr>
                   (run_timepoints h p imp st)))"
proof (cases "target_channel p < 1 \<or> target_channel p > int (im_nChannels imp)")
  case True
  then show ?thesis
    by (simp add: process_file_invalid [OF assms] close_saved)
next
  case False
  then have v: "1 \<le> target_channel p" "target_channel p \<le> int (im_nChannels imp)"
    by auto
  show ?thesis
    using v by (simp add: process_file_saved [OF assms v])
qed

section \<open>Validation of the channel\<close>

text \<open>
  C4: when \<open>target_channel < 1\<close> or \<open>target_channel > n_channels\<close> the file is skipped:
  nothing is saved for it, the opened image is closed and nothing else is, and the file
  loop goes on with the next file.
\<close>

theorem out_of_range_channel_skips_file:
  assumes "openImage h (getAbsolutePath f) = Opened imp"
    and "target_channel p < 1 \<or> target_channel p > int (im_nChannels imp)"
  shows "saved (process_file h p st f) = saved st \<and>
         closed (process_file h p st f) = closed st @ [im_title imp] \<and>
         file_loop h p (f # rest) st = file_loop h p rest (close imp st)"
  by (simp add: process_file_invalid [OF assms] close_def)

lemma ex_open_b: "openImage (ex_host r) (getAbsolutePath (File ''/data'' ''b.tif'')) = Opened ex_imp1"
  by (simp add: ex_host_def getAbsolutePath_def)

lemma ex_open_a: "openImage (ex_host r) (getAbsolutePath (File ''/data'' ''a.tif'')) = Opened ex_imp2"
  by (simp add: ex_host_def getAbsolutePath_def)

theorem out_of_range_channel_skips_file_witness:
  "openImage (ex_host ProcessFailed) (getAbsolutePath (File ''/data'' ''b.tif'')) = Opened ex_imp1 \<and>
   target_channel (ex_params 2 True) > int (im_nChannels ex_imp1) \<and>
   saved (process_file (ex_host ProcessFailed) (ex_params 2 True) initial_state
            (File ''/data'' ''b.tif'')) = [] \<and>
   closed (process_file (ex_host ProcessFailed) (ex_params 2 True) initial_state
            (File ''/data'' ''b.tif'')) = [''b.tif'']"
proof -
  have c: "target_channel (ex_params 2 True) > int (im_nChannels ex_imp1)"
    by (simp add: ex_params_def ex_imp1_def)
  then have "target_channel (ex_params 2 True) < 1 \<or>
             target_channel (ex_params 2 True) > int (im_nChannels ex_imp1)"
    by simp
  from out_of_range_channel_skips_file [OF ex_open_b this, where st = initial_state]
  have "saved (process_file (ex_host ProcessFailed) (ex_params 2 True) initial_state
            (File ''/data'' ''b.tif'')) = saved initial_state"
    and "closed (process_file (ex_host ProcessFailed) (ex_params 2 True) initial_state
            (File ''/data'' ''b.tif'')) = closed initial_state @ [im_title ex_imp1]"
    by simp_all
  then show ?thesis
    using c ex_open_b by (simp add: initial_state_def ex_imp1_def)
qed

section \<open>The label hyperstack of a written file\<close>

text \<open>
  C6: for every file for which an output is written, the accumulated stack is reshaped
  into a hyperstack of one channel, \<open>n_slices\<close> z-slices and \<open>n_frames\<close> frames that holds
  the accumulated slices in their order, and the label hyperstack and the image that is
  saved carry the calibration of the source image.
\<close>

theorem label_hyperstack_shape_and_calibration:
  assumes "openImage h (getAbsolutePath f) = Opened imp"
    and "saved (process_file h p st f) \<noteq> saved st"
  shows "\<exists>label_imp out img.
           create_label_hyperstack imp (output_stack (run_timepoints h p imp st)) = Some label_imp \<and>
           im_nChannels label_imp = 1 \<and>
           im_nSlices label_imp = im_nSlices imp \<and>
           im_nFrames label_imp = im_nFrames imp \<and>
           im_stack label_imp = output_stack (run_timepoints h p imp st) \<and>
           getSize (im_stack label_imp) = 1 * im_nSlices imp * im_nFrames imp \<and>
           im_calibration label_imp = im_calibration imp \<and>
           saved (process_file h p st f) = saved st @ [(out, img)] \<and>
           im_calibration img = im_calibration imp \<and>
           im_nSlices img = im_nSlices imp \<and>
           im_nFrames img = im_nFrames imp"
proof -
  let ?st2 = "run_timepoints h p imp st"
  let ?l = "\<lparr>im_title = ''Labels'', im_stack = output_stack ?st2,
             im_nChannels = 1, im_nSlices = im_nSlices imp, im_nFrames = im_nFrames imp,
             im_currentSlice = 1, im_calibration = im_calibration imp\<rparr>"
  from process_file_saved_cases [OF assms(1), of p st] assms(2)
  have v: "1 \<le> target_channel p" "target_channel p \<le> int (im_nChannels imp)"
    and size: "im_nSlices imp * im_nFrames imp = getSize (output_stack ?st2)"
    and sv: "saved (process_file h p st f) = saved (write_output p f imp ?l ?st2)"
    by auto
  have c: "create_label_hyperstack imp (output_stack ?st2) = Some ?l"
    using size by (simp add: create_label_hyperstack_eq)
  have "1 \<le> im_nChannels imp"
    using v by linarith
  from write_output_saved [OF this, of p f ?l ?st2]
  obtain img where
    w: "saved (write_output p f imp ?l ?st2) =
          saved ?st2 @ [(File (output_dir p) (splitext_root (getName f) @
              (if append_to_original p then ''_with_labels.tif'' else ''_label_3D.tif'')), img)]"
    and ic: "im_calibration img = im_calibration imp"
    and iz: "im_nSlices img = im_nSlices imp"
    and it: "im_nFrames img = im_nFrames imp"
    by auto
  have "saved (process_file h p st f) =
          saved st @ [(File (output_dir p) (splitext_root (getName f) @
              (if append_to_original p then ''_with_labels.tif'' else ''_label_3D.tif'')), img)]"
    using sv w by (simp add: run_timepoints_saved)
  moreover have "im_nChannels ?l = 1 \<and> im_nSlices ?l = im_nSlices imp \<and>
     im_nFrames ?l = im_nFrames imp \<and> im_stack ?l = output_stack ?st2 \<and>
     getSize (im_stack ?l) = 1 * im_nSlices imp * im_nFrames imp \<and>
     im_calibration ?l = im_calibration imp"
    using size by simp
  ultimately show ?thesis
    using c ic iz it by blast
qed


lemma ex_open_c:
  "openImage (ex_host_mixed k) (getAbsolutePath (File ''/data'' ''c.tif'')) = Opened ex_imp3"
  by (simp add: ex_host_mixed_def getAbsolutePath_def)

lemma ex_params_channel: "target_channel (ex_params ch app) = ch"
  by (simp add: ex_params_def)

lemma ex_mixed_written:
  "saved (process_file (ex_host_mixed 2) (ex_params 1 app) initial_state (File ''/data'' ''c.tif''))
     \<noteq> saved initial_state"
proof -
  let ?h = "ex_host_mixed 2" and ?p = "ex_params 1 app" and ?f = "File ''/data'' ''c.tif''"
  let ?st2 = "run_timepoints ?h ?p ex_imp3 initial_state"
  let ?l = "\<lparr>im_title = ''Labels'', im_stack = output_stack ?st2,
             im_nChannels = 1, im_nSlices = im_nSlices ex_imp3, im_nFrames = im_nFrames ex_imp3,
             im_currentSlice = 1, im_calibration = im_calibration ex_imp3\<rparr>"
  have v: "1 \<le> target_channel ?p" "target_channel ?p \<le> int (im_nChannels ex_imp3)"
    by (simp_all add: ex_params_channel ex_imp3_dims)
  have size: "getSize (output_stack ?st2) = 4"
    by (simp add: ex_mixed_size)
  have "saved (process_file ?h ?p initial_state ?f) = saved (write_output ?p ?f ex_imp3 ?l ?st2)"
    unfolding process_file_saved [OF ex_open_c v] size by (simp add: ex_imp3_dims)
  moreover have "\<exists>out img. saved (write_output ?p ?f ex_imp3 ?l ?st2) = saved ?st2 @ [(out, img)]"
    using write_output_saved [of ex_imp3 ?p ?f ?l ?st2] by (auto simp: ex_imp3_dims)
  ultimately show ?thesis
    by (auto simp: run_timepoints_saved)
qed

theorem label_hyperstack_shape_and_calibration_witness:
  "openImage (ex_host_mixed 2) (getAbsolutePath (File ''/data'' ''c.tif'')) = Opened ex_imp3 \<and>
   saved (process_file (ex_host_mixed 2) (ex_params 1 False) initial_state (File ''/data'' ''c.tif''))
     \<noteq> saved initial_state \<and>
   map (\<lambda>e. (im_nSlices (snd e), im_nFrames (snd e), im_calibration (snd e)))
     (saved (process_file (ex_host_mixed 2) (ex_params 1 False) initial_state
        (File ''/data'' ''c.tif''))) = [(2, 2, ex_cal)]"
proof -
  let ?h = "ex_host_mixed 2" and ?p = "ex_params 1 False" and ?f = "File ''/data'' ''c.tif''"
  from label_hyperstack_shape_and_calibration [OF ex_open_c ex_mixed_written]
  obtain out img where
    "saved (process_file ?h ?p initial_state ?f) = saved initial_state @ [(out, img)]"
    "im_calibration img = im_calibration ex_imp3"
    "im_nSlices img = im_nSlices ex_imp3"
    "im_nFrames img = im_nFrames ex_imp3"
    by blast
  then have "map (\<lambda>e. (im_nSlices (snd e), im_nFrames (snd e), im_calibration (snd e)))
     (saved (process_file ?h ?p initial_state ?f)) = [(2, 2, ex_cal)]"
    by (simp add: initial_state_def ex_imp3_dims)
  then show ?thesis
    using ex_open_c ex_mixed_written by blast
qed

section \<open>Files whose timepoints all fail\<close>





lemma ex_host_result: "tp_result (ex_host r) p imp t = r"
  by (simp add: tp_result_def ex_host_def)

lemma ex_imp2_dims:
  "im_nChannels ex_imp2 = 2" "im_nSlices ex_imp2 = 2" "im_nFrames ex_imp2 = 1"
  "getWidth ex_imp2 = 1" "getHeight ex_imp2 = 1" "im_calibration ex_imp2 = ex_cal"
  by (simp_all add: ex_imp2_def getWidth_def getHeight_def)


section \<open>The empty-stack branch\<close>








section \<open>The output branch\<close>

lemma process_file_written_if_fits:
  assumes "openImage h (getAbsolutePath f) = Opened imp"
    and "1 \<le> target_channel p" and "target_channel p \<le> int (im_nChannels imp)"
    and "getSize (output_stack (run_timepoints h p imp st)) \<noteq> 0"
    and "im_nSlices imp * im_nFrames imp = getSize (output_stack (run_timepoints h p imp st))"
  shows "saved (process_file h p st f) \<noteq> saved st"
proof -
  have "1 \<le> im_nChannels imp"
    using assms(2,3) by linarith
  from write_output_saved [OF this]
  have "\<exists>out img. saved (write_output p f imp
             \<lparr>im_title = ''Labels'', im_stack = output_stack (run_timepoints h p imp st),
              im_nChannels = 1, im_nSlices = im_nSlices imp,
              im_nFrames = im_nFrames imp, im_currentSlice = 1,
              im_calibration = im_calibration imp\<rparr> (run_timepoints h p imp st)) =
            saved (run_timepoints h p imp st) @ [(out, img)]"
    by blast
  then show ?thesis
    using assms(4,5) by (auto simp: process_file_saved [OF assms(1-3)] run_timepoints_saved)
qed

text \<open>
  C3: for every file for which an output is written, the branch is decided by
  \<open>append_to_original\<close> and the channel count of the source. Without appending, the label
  hyperstack alone is saved as \<open><name>_label_3D.tif\<close>. With appending and a source of one
  channel, the merge of the source and the label hyperstack, of two channels, is saved as
  \<open><name>_with_labels.tif\<close>. With appending and a source of \<open>N > 1\<close> channels, the merge
  of the \<open>N\<close> duplicates of the original channels, each over all z-slices and frames, and
  the label hyperstack, of \<open>N + 1\<close> channels, is saved as \<open><name>_with_labels.tif\<close>.
\<close>

theorem output_branch_by_append_and_channels:
  assumes "openImage h (getAbsolutePath f) = Opened imp"
    and "saved (process_file h p st f) \<noteq> saved st"
    and "label_imp = \<lparr>im_title = ''Labels'', im_stack = output_stack (run_timepoints h p imp st),
                      im_nChannels = 1, im_nSlices = im_nSlices imp,
                      im_nFrames = im_nFrames imp, im_currentSlice = 1,
                      im_calibration = im_calibration imp\<rparr>"
    and "name = splitext_root (getName f)"
  shows "if \<not> append_to_original p then
           saved (process_file h p st f) =
             saved st @ [(File (output_dir p) (name @ ''_label_3D.tif''), label_imp)]
         else if im_nChannels imp = 1 then
           \<exists>merged. mergeChannels [imp, label_imp] = Some merged \<and>
             im_nChannels merged = 2 \<and>
             saved (process_file h p st f) =
               saved st @ [(File (output_dir p) (name @ ''_with_labels.tif''),
                            setCalibration (setTitle merged (name @ ''_with_labels''))
                              (im_calibration imp))]
         else
           \<exists>merged. mergeChannels
               (map (\<lambda>c. Duplicator_run imp c c 1 (im_nSlices imp) 1 (im_nFrames imp))
                  [1..<Suc (im_nChannels imp)] @ [label_imp]) = Some merged \<and>
             im_nChannels merged = im_nChannels imp + 1 \<and>
             saved (process_file h p st f) =
               saved st @ [(File (output_dir p) (name @ ''_with_labels.tif''),
                            setCalibration (setTitle merged (name @ ''_with_labels''))
                              (im_calibration imp))]"
proof -
  let ?st2 = "run_timepoints h p imp st"
  from process_file_saved_cases [OF assms(1), of p st] assms(2)
  have v: "1 \<le> target_channel p" "target_channel p \<le> int (im_nChannels imp)"
    and sv: "saved (process_file h p st f) = saved (write_output p f imp label_imp ?st2)"
    unfolding assms(3) by auto
  have c1: "1 \<le> im_nChannels imp"
    using v by linarith
  show ?thesis
  proof (cases "append_to_original p")
    case False
    then show ?thesis
      unfolding sv assms(4)
      by (simp add: write_output_label_only close_saved save_saved run_timepoints_saved)
  next
    case True
    show ?thesis
    proof (cases "im_nChannels imp = 1")
      case one: True
      from write_output_single [OF True one, of label_imp f ?st2]
      show ?thesis
        unfolding sv assms(4) using True one
        by (auto simp: close_saved save_saved run_timepoints_saved)
    next
      case False
      with c1 have two: "2 \<le> im_nChannels imp" by simp
      from write_output_multi [OF True two, of label_imp f ?st2]
      show ?thesis
        unfolding sv assms(4) duplicate_channels_def using True False
        by (auto simp: close_saved close_all_saved save_saved run_timepoints_saved
              simp del: upt_Suc)
    qed
  qed
qed


lemma ex_params_fields:
  "append_to_original (ex_params ch app) = app" "output_dir (ex_params ch app) = ''/out''"
  by (simp_all add: ex_params_def)

lemma ex_failed_written:
  "saved (process_file (ex_host ProcessFailed) (ex_params 1 app) initial_state
     (File ''/data'' ''a.tif'')) \<noteq> saved initial_state"
proof -
  let ?h = "ex_host ProcessFailed" and ?p = "ex_params 1 app"
  have v: "1 \<le> target_channel ?p" "target_channel ?p \<le> int (im_nChannels ex_imp2)"
    by (simp_all add: ex_params_channel ex_imp2_dims)
  have "\<forall>t\<in>{1..im_nFrames ex_imp2}. \<forall>exported.
          tp_result ?h ?p ex_imp2 t = Label exported \<longrightarrow> im_nFrames exported = im_nSlices ex_imp2"
    by (simp add: ex_host_result)
  then have "getSize (output_stack (run_timepoints ?h ?p ex_imp2 initial_state)) =
               im_nFrames ex_imp2 * im_nSlices ex_imp2"
    by (rule run_timepoints_size_uniform)
  then have size: "getSize (output_stack (run_timepoints ?h ?p ex_imp2 initial_state)) = 2"
    by (simp add: ex_imp2_dims)
  show ?thesis
    by (rule process_file_written_if_fits [OF ex_open_a v]) (simp_all add: size ex_imp2_dims)
qed

theorem output_branch_by_append_and_channels_witness:
  "map (\<lambda>e. (fst e, im_nChannels (snd e)))
     (saved (process_file (ex_host_mixed 2) (ex_params 1 False) initial_state
        (File ''/data'' ''c.tif''))) = [(File ''/out'' ''c_label_3D.tif'', 1)] \<and>
   map (\<lambda>e. (fst e, im_nChannels (snd e)))
     (saved (process_file (ex_host_mixed 2) (ex_params 1 True) initial_state
        (File ''/data'' ''c.tif''))) = [(File ''/out'' ''c_with_labels.tif'', 2)] \<and>
   map (\<lambda>e. (fst e, im_nChannels (snd e)))
     (saved (process_file (ex_host ProcessFailed) (ex_params 1 True) initial_state
        (File ''/data'' ''a.tif''))) = [(File ''/out'' ''a_with_labels.tif'', 3)]"
proof -
  have n: "splitext_root ''c.tif'' = ''c''" "splitext_root ''a.tif'' = ''a''"
    by (simp_all add: splitext_root_def)
  have s0: "saved initial_state = []"
    by (simp add: initial_state_def)
  have a: "map (\<lambda>e. (fst e, im_nChannels (snd e)))
     (saved (process_file (ex_host_mixed 2) (ex_params 1 False) initial_state
        (File ''/data'' ''c.tif''))) = [(File ''/out'' ''c_label_3D.tif'', 1)]"
    using output_branch_by_append_and_channels [OF ex_open_c ex_mixed_written [of False] refl refl]
    by (simp add: ex_params_fields n s0)
  have b: "map (\<lambda>e. (fst e, im_nChannels (snd e)))
     (saved (process_file (ex_host_mixed 2) (ex_params 1 True) initial_state
        (File ''/data'' ''c.tif''))) = [(File ''/out'' ''c_with_labels.tif'', 2)]"
    using output_branch_by_append_and_channels [OF ex_open_c ex_mixed_written [of True] refl refl]
    by (auto simp: ex_params_fields n s0 ex_imp3_dims setCalibration_def setTitle_def)
  have c: "map (\<lambda>e. (fst e, im_nChannels (snd e)))
     (saved (process_file (ex_host ProcessFailed) (ex_params 1 True) initial_state
        (File ''/data'' ''a.tif''))) = [(File ''/out'' ''a_with_labels.tif'', 3)]"
    using output_branch_by_append_and_channels [OF ex_open_a ex_failed_written [of True] refl refl]
    by (auto simp: ex_params_fields n s0 ex_imp2_dims setCalibration_def setTitle_def
          simp del: upt_Suc)
  show ?thesis
    using a b c by blast
qed

section \<open>The sub-volume of a timepoint\<close>









section \<open>Independence of the files\<close>

lemma process_timepoint_successful_cong:
  "successful_timepoints st = successful_timepoints st' \<Longrightarrow>
   successful_timepoints (process_timepoint h p imp st t) =
   successful_timepoints (process_timepoint h p imp st' t)"
  by (cases "trackmate h (make_settings p (extract_timepoint p imp t))")
     (simp_all add: process_timepoint_def Let_def close_def)

lemma timepoint_loop_successful_cong:
  "successful_timepoints st = successful_timepoints st' \<Longrightarrow>
   successful_timepoints (timepoint_loop h p imp ts st) =
   successful_timepoints (timepoint_loop h p imp ts st')"
proof (induction ts arbitrary: st st')
  case Nil
  then show ?case by simp
next
  case (Cons t ts)
  have "successful_timepoints (process_timepoint h p imp st t) =
        successful_timepoints (process_timepoint h p imp st' t)"
    using Cons.prems by (rule process_timepoint_successful_cong)
  then show ?case
    unfolding timepoint_loop.simps by (rule Cons.IH)
qed

lemma run_timepoints_successful_indep:
  "successful_timepoints (run_timepoints h p imp st) =
   successful_timepoints (run_timepoints h p imp st')"
  unfolding run_timepoints_def Let_def
  by (rule timepoint_loop_successful_cong) simp

lemma write_output_saved_frame:
  "saved (write_output p f imp label_imp st) =
     saved st @ saved (write_output p f imp label_imp initial_state)"
  by (simp add: write_output_def Let_def close_saved close_all_saved save_saved
        initial_state_def split: option.splits)

lemma process_file_saved_frame:
  "saved (process_file h p st f) = saved st @ saved (process_file h p initial_state f)"
proof (cases "openImage h (getAbsolutePath f)")
  case OpenRaises
  then show ?thesis
    by (simp add: process_file_not_opened initial_state_def)
next
  case OpenNone
  then show ?thesis
    by (simp add: process_file_not_opened initial_state_def)
next
  case (Opened imp)
  show ?thesis
  proof (cases "target_channel p < 1 \<or> target_channel p > int (im_nChannels imp)")
    case True
    then show ?thesis
      by (simp add: process_file_invalid [OF Opened] close_saved initial_state_def)
  next
    case False
    then have v: "1 \<le> target_channel p" "target_channel p \<le> int (im_nChannels imp)"
      by auto
    have s: "output_stack (run_timepoints h p imp st) =
             output_stack (run_timepoints h p imp initial_state)"
      by (rule run_timepoints_stack_indep)
    define l where "l = \<lparr>im_title = ''Labels'',
               im_stack = output_stack (run_timepoints h p imp initial_state),
               im_nChannels = 1, im_nSlices = im_nSlices imp, im_nFrames = im_nFrames imp,
               im_currentSlice = 1, im_calibration = im_calibration imp\<rparr>"
    have a: "saved (write_output p f imp l (run_timepoints h p imp st)) =
             saved st @ saved (write_output p f imp l initial_state)"
      using write_output_saved_frame [of p f imp l "run_timepoints h p imp st"]
      by (simp add: run_timepoints_saved)
    have b: "saved (write_output p f imp l (run_timepoints h p imp initial_state)) =
             saved (write_output p f imp l initial_state)"
      using write_output_saved_frame [of p f imp l "run_timepoints h p imp initial_state"]
      by (simp add: run_timepoints_saved initial_state_def)
    have e: "saved initial_state = []"
      by (simp add: initial_state_def)
    show ?thesis
      unfolding process_file_saved [OF Opened v] s l_def [symmetric]
      by (simp add: a b e)
  qed
qed

lemma file_loop_saved_frame:
  "saved (file_loop h p fs st) =
     saved st @ concat (map (\<lambda>f. saved (process_file h p initial_state f)) fs)"
proof (induction fs arbitrary: st)
  case Nil
  then show ?case by simp
next
  case (Cons f fs)
  show ?case
    unfolding file_loop.simps Cons.IH
    by (simp add: process_file_saved_frame [of h p st f])
qed

text \<open>
  C8: what a run saves for a file depends only on the parameters, the host's answers and
  that file. The output stack after the timepoints of a file does not depend on the state
  the earlier files left, the files saved for it are the same from any state, and the
  files a run saves are, file by file, those of the file processed on its own, whose
  dimensions and calibration are therefore the same in every run.
\<close>

theorem file_output_independent_of_other_files:
  "output_stack (run_timepoints h p imp st) = output_stack (run_timepoints h p imp st') \<and>
   successful_timepoints (run_timepoints h p imp st) =
     successful_timepoints (run_timepoints h p imp st') \<and>
   saved (process_file h p st f) = saved st @ saved (process_file h p initial_state f) \<and>
   saved (file_loop h p fs st) =
     saved st @ concat (map (\<lambda>f. saved (process_file h p initial_state f)) fs) \<and>
   saved (run_script h p fs) = concat (map (\<lambda>f. saved (run_script h p [f])) fs)"
proof -
  have e: "saved initial_state = []"
    by (simp add: initial_state_def)
  have "saved (run_script h p [f]) = saved (process_file h p initial_state f)" for f
    by (simp add: run_script_def)
  then have r: "saved (run_script h p fs) = concat (map (\<lambda>f. saved (run_script h p [f])) fs)"
    by (simp add: run_script_def file_loop_saved_frame e)
  show ?thesis
    using run_timepoints_stack_indep run_timepoints_successful_indep process_file_saved_frame
      file_loop_saved_frame r by blast
qed


lemma ex_run_names:
  "map fst (saved (run_script (ex_host ProcessFailed) (ex_params 1 False)
      [File ''/data'' ''a.tif'', File ''/data'' ''zz.tif'', File ''/data'' ''b.tif''])) =
     [File ''/out'' ''a_label_3D.tif'', File ''/out'' ''b_label_3D.tif'']"
  by code_simp

theorem file_output_independent_of_other_files_witness:
  "saved (run_script (ex_host ProcessFailed) (ex_params 1 False)
      [File ''/data'' ''a.tif'', File ''/data'' ''zz.tif'', File ''/data'' ''b.tif'']) =
   saved (run_script (ex_host ProcessFailed) (ex_params 1 False) [File ''/data'' ''a.tif'']) @
   saved (run_script (ex_host ProcessFailed) (ex_params 1 False) [File ''/data'' ''zz.tif'']) @
   saved (run_script (ex_host ProcessFailed) (ex_params 1 False) [File ''/data'' ''b.tif'']) \<and>
   map fst (saved (run_script (ex_host ProcessFailed) (ex_params 1 False)
      [File ''/data'' ''a.tif'', File ''/data'' ''zz.tif'', File ''/data'' ''b.tif''])) =
     [File ''/out'' ''a_label_3D.tif'', File ''/out'' ''b_label_3D.tif'']"
proof -
  have "saved (run_script (ex_host ProcessFailed) (ex_params 1 False)
      [File ''/data'' ''a.tif'', File ''/data'' ''zz.tif'', File ''/data'' ''b.tif'']) =
    concat (map (\<lambda>f. saved (run_script (ex_host ProcessFailed) (ex_params 1 False) [f]))
      [File ''/data'' ''a.tif'', File ''/data'' ''zz.tif'', File ''/data'' ''b.tif''])"
    using file_output_independent_of_other_files
      [where h = "ex_host ProcessFailed" and p = "ex_params 1 False"
         and fs = "[File ''/data'' ''a.tif'', File ''/data'' ''zz.tif'', File ''/data'' ''b.tif'']"]
    by blast
  then show ?thesis
    using ex_run_names by simp
qed

end
